theory Spec2Isabelle
  imports Complex_Main
begin

section \<open>Exceptions of the notebooks' Python code\<close>

text \<open>
  The notebooks are plain Python cells. An exception that a cell's code raises is a value
  of type \<open>error\<close>; a function that can raise returns \<open>error + 'a\<close>, with \<open>Inl\<close> for
  the exception.
\<close>

datatype error = ValueError | ZeroDivisionError | IndexError

section \<open>Floating-point values of NumPy arrays and pandas columns\<close>

text \<open>
  A \<open>float64\<close> element is NaN, an infinity or a finite number, given as the rational it
  denotes. The sign of zero is not modelled.
\<close>

datatype float64 = NaN | PInf | NInf | Finite rat

text \<open>
  The result of an arithmetic operation is the exact result rounded to the nearest
  \<open>float64\<close>: a significand of 53 bits, ties to the even significand, exponents from
  \<open>-1022\<close> (below that the spacing stays \<open>2\<^sup>-\<^sup>1\<^sup>0\<^sup>7\<^sup>4\<close>), and an infinity when the rounded
  magnitude reaches \<open>2\<^sup>1\<^sup>0\<^sup>2\<^sup>4\<close>. \<open>bit_length n\<close> is the number of binary digits of \<open>n\<close>,
  and \<open>binary_exponent a\<close> is the \<open>e\<close> with \<open>2\<^sup>e \<le> a < 2\<^sup>e\<^sup>+\<^sup>1\<close> for a positive \<open>a\<close>.
\<close>

function bit_length :: "int \<Rightarrow> int" where
  "bit_length n = (if n \<le> 0 then 0 else 1 + bit_length (n div 2))"
  by pat_completeness auto
termination
  by (relation "measure nat") auto

declare bit_length.simps [simp del]

definition pow2 :: "int \<Rightarrow> rat" where
  "pow2 k = (if 0 \<le> k then 2 ^ nat k else 1 / 2 ^ nat (- k))"

definition binary_exponent :: "rat \<Rightarrow> int" where
  "binary_exponent a =
     (if 1 \<le> a then bit_length \<lfloor>a\<rfloor> - 1
      else
        let j = bit_length \<lfloor>1 / a\<rfloor> - 1
        in if pow2 (- j) \<le> a then - j else - j - 1)"

definition round_half_even :: "rat \<Rightarrow> int" where
  "round_half_even x =
     (let f = \<lfloor>x\<rfloor>; r = x - of_int f
      in if r < 1 / 2 then f
         else if 1 / 2 < r then f + 1
         else if even f then f else f + 1)"

definition round64 :: "rat \<Rightarrow> float64" where
  "round64 q =
     (if q = 0 then Finite 0
      else
        let a = \<bar>q\<bar>;
            e = max (binary_exponent a) (- 1022);
            u = pow2 (e - 52);
            r = of_int (round_half_even (a / u)) * u
        in if pow2 1024 \<le> r then (if 0 < q then PInf else NInf)
           else Finite (if 0 < q then r else - r))"

fun isnan :: "float64 \<Rightarrow> bool" where
  "isnan NaN = True"
| "isnan _ = False"

text \<open>The comparisons \<open>==\<close> and \<open>!=\<close> of IEEE 754: NaN is unequal to everything, itself included.\<close>

fun ieee_eq :: "float64 \<Rightarrow> float64 \<Rightarrow> bool" where
  "ieee_eq NaN _ = False"
| "ieee_eq _ NaN = False"
| "ieee_eq a b = (a = b)"

definition ieee_ne :: "float64 \<Rightarrow> float64 \<Rightarrow> bool" where
  "ieee_ne a b = (\<not> ieee_eq a b)"

fun fadd :: "float64 \<Rightarrow> float64 \<Rightarrow> float64" where
  "fadd NaN _ = NaN"
| "fadd _ NaN = NaN"
| "fadd PInf NInf = NaN"
| "fadd NInf PInf = NaN"
| "fadd PInf _ = PInf"
| "fadd _ PInf = PInf"
| "fadd NInf _ = NInf"
| "fadd _ NInf = NInf"
| "fadd (Finite a) (Finite b) = round64 (a + b)"

fun fneg :: "float64 \<Rightarrow> float64" where
  "fneg NaN = NaN"
| "fneg PInf = NInf"
| "fneg NInf = PInf"
| "fneg (Finite a) = Finite (- a)"

definition fsub :: "float64 \<Rightarrow> float64 \<Rightarrow> float64" where
  "fsub a b = fadd a (fneg b)"

fun fabs :: "float64 \<Rightarrow> float64" where
  "fabs NaN = NaN"
| "fabs PInf = PInf"
| "fabs NInf = PInf"
| "fabs (Finite a) = Finite \<bar>a\<bar>"

text \<open>
  NumPy's true division does not raise on a zero divisor: it yields an infinity, or NaN
  for \<open>0 / 0\<close>.
\<close>

fun fdiv :: "float64 \<Rightarrow> float64 \<Rightarrow> float64" where
  "fdiv NaN _ = NaN"
| "fdiv _ NaN = NaN"
| "fdiv (Finite a) (Finite b) =
     (if b = 0 then (if a = 0 then NaN else if 0 < a then PInf else NInf)
      else round64 (a / b))"
| "fdiv (Finite a) _ = Finite 0"
| "fdiv PInf (Finite b) = (if b < 0 then NInf else PInf)"
| "fdiv NInf (Finite b) = (if b < 0 then PInf else NInf)"
| "fdiv _ _ = NaN"

section \<open>Timing with \<open>timeit.repeat\<close>\<close>

text \<open>
  \<^verbatim>\<open>
  runs=40
  repeats=1000
  times = timeit.repeat(stmt='sum_squares_comp(5000)', globals=globals(),
                        number=runs, repeat=repeats)
  best = min(times) / runs*1e6
  print(f"{best:.2f} \<mu>s per loop")
  \<close>
  \<open>timeit.repeat\<close> returns one wall-clock duration, in seconds, for each of the
  \<open>repeats\<close> runs; each run executes the statement \<open>runs\<close> times. The durations are
  measurements, so the list \<open>times\<close> is an input of the model (\<open>ts\<close> below), as exact
  rationals. Python's \<open>min\<close> keeps the first smallest element and raises \<open>ValueError\<close>
  on an empty list; \<open>/\<close> raises \<open>ZeroDivisionError\<close> on a zero divisor.
\<close>

fun py_min :: "rat list \<Rightarrow> error + rat" where
  "py_min [] = Inl ValueError"
| "py_min (t # ts) = Inr (foldl (\<lambda>m u. if u < m then u else m) t ts)"

definition best :: "rat list \<Rightarrow> int \<Rightarrow> error + rat" where
  "best ts runs =
     (case py_min ts of
        Inl e \<Rightarrow> Inl e
      | Inr m \<Rightarrow> if runs = 0 then Inl ZeroDivisionError
                else Inr (m / of_int runs * 1000000))"

section \<open>NumPy ufuncs with \<open>out=\<close> and \<open>where=\<close>\<close>

text \<open>
  A binary ufunc called with \<open>where=cond\<close> computes \<open>f a b\<close> at the positions where the
  mask is true and leaves the output buffer as it was at the others; an element operation
  that raises there aborts the call. The arrays are one-dimensional. Operands are
  broadcast to the length of the output: an operand of that length is taken as it is, an
  operand of length one is repeated, and any other length raises \<open>ValueError\<close>.
\<close>

fun ufunc_where ::
  "('a \<Rightarrow> 'b \<Rightarrow> error + 'c) \<Rightarrow> 'a list \<Rightarrow> 'b list \<Rightarrow> 'c list \<Rightarrow> bool list \<Rightarrow> error + 'c list" where
  "ufunc_where f (a # as) (b # bs) (v # vs) (c # cs) =
     (case (if c then f a b else Inr v) of
        Inl e \<Rightarrow> Inl e
      | Inr r \<Rightarrow>
          (case ufunc_where f as bs vs cs of
             Inl e \<Rightarrow> Inl e
           | Inr rest \<Rightarrow> Inr (r # rest)))"
| "ufunc_where f _ _ _ _ = Inr []"

definition broadcast_to :: "'a list \<Rightarrow> nat \<Rightarrow> error + 'a list" where
  "broadcast_to xs n =
     (if length xs = n then Inr xs
      else if length xs = 1 then Inr (replicate n (hd xs))
      else Inl ValueError)"

definition ufunc_out_where ::
  "('a \<Rightarrow> 'b \<Rightarrow> error + 'c) \<Rightarrow> 'a list \<Rightarrow> 'b list \<Rightarrow> 'c list \<Rightarrow> bool list \<Rightarrow> error + 'c list" where
  "ufunc_out_where f x1 x2 out cond =
     (case broadcast_to x1 (length out) of
        Inl e \<Rightarrow> Inl e
      | Inr as \<Rightarrow>
         (case broadcast_to x2 (length out) of
            Inl e \<Rightarrow> Inl e
          | Inr bs \<Rightarrow>
             (case broadcast_to cond (length out) of
                Inl e \<Rightarrow> Inl e
              | Inr cs \<Rightarrow> ufunc_where f as bs out cs)))"

text \<open>\<open>np.full(n, v)\<close> and the mask \<open>A != 0\<close> of an integer array.\<close>

definition np_full :: "nat \<Rightarrow> 'a \<Rightarrow> 'a list" where
  "np_full n v = replicate n v"

definition nonzero_mask :: "int list \<Rightarrow> bool list" where
  "nonzero_mask A = map (\<lambda>a. a \<noteq> 0) A"

text \<open>
  Element operations on integer operands. \<open>np.divide\<close> is true division and converts the
  integers to floats first. \<open>np.power\<close> on integers stays in 64-bit integers, wrapping
  around, and the result is converted when it is stored in a float buffer; a negative
  integer exponent raises \<open>ValueError\<close>. The conversion of an integer to a float rounds.
\<close>

definition int_true_divide :: "int \<Rightarrow> int \<Rightarrow> error + float64" where
  "int_true_divide a b = Inr (fdiv (round64 (of_int a)) (round64 (of_int b)))"

definition int64_wrap :: "int \<Rightarrow> int" where
  "int64_wrap v = (v + 2 ^ 63) mod 2 ^ 64 - 2 ^ 63"

definition int_power :: "int \<Rightarrow> int \<Rightarrow> error + float64" where
  "int_power b e =
     (if e < 0 then Inl ValueError else Inr (round64 (of_int (int64_wrap (b ^ nat e)))))"

text \<open>
  The first cell, labelled "Incorrect approach" by its own output:
  \<^verbatim>\<open>
  # Prepopulate V with NaNs
  V = np.full(5, np.nan)
  A = np.array([2, 0, 5, 0, 10])
  condition = A != 0
  V = np.divide(10, A, where=condition)
  \<close>
  No \<open>out=\<close> is passed, so NumPy allocates the result itself and does not initialise it;
  the assignment then rebinds \<open>V\<close> to that new array. \<open>fresh\<close> is what the new buffer
  happens to hold; it has the length of the result.
\<close>

definition np_divide_where :: "float64 list \<Rightarrow> int \<Rightarrow> int list \<Rightarrow> bool list \<Rightarrow> error + float64 list" where
  "np_divide_where fresh x A cond = ufunc_out_where int_true_divide [x] A fresh cond"

definition incorrect_approach :: "float64 list \<Rightarrow> error + float64 list" where
  "incorrect_approach fresh =
     (let V = np_full 5 NaN;
          A = [2, 0, 5, 0, 10];
          condition = nonzero_mask A
      in np_divide_where fresh 10 A condition)"

text \<open>
  The second cell, labelled "Correct approach":
  \<^verbatim>\<open>
  V = np.full(5, np.nan)
  A = np.array([2, 0, 5, 0, 10])
  condition = A != 0
  np.power(2, A, out=V, where=condition)
  \<close>
  The result is the content of \<open>V\<close> after the call.
\<close>

definition np_power_out_where :: "int \<Rightarrow> int list \<Rightarrow> float64 list \<Rightarrow> bool list \<Rightarrow> error + float64 list" where
  "np_power_out_where x A out cond = ufunc_out_where int_power [x] A out cond"

definition correct_approach :: "error + float64 list" where
  "correct_approach =
     (let V = np_full 5 NaN;
          A = [2, 0, 5, 0, 10];
          condition = nonzero_mask A
      in np_power_out_where 2 A V condition)"

section \<open>The pandas comparisons of row-wise and vectorized sums\<close>

text \<open>
  \<open>Series.equals\<close> compares two columns element by element: it holds when the columns
  have the same length and every pair of elements is equal under \<open>==\<close> or is a pair of
  NaNs. Both columns of a comparison in the notebooks belong to the same DataFrame, so
  they share index and dtype, and only the values are modelled.
\<close>

definition series_equals :: "float64 list \<Rightarrow> float64 list \<Rightarrow> bool" where
  "series_equals left right =
     (length left = length right \<and>
      list_all (\<lambda>(l, r). ieee_eq l r \<or> (isnan l \<and> isnan r)) (zip left right))"

text \<open>
  \<^verbatim>\<open>
  df_perf = pd.DataFrame({'x': np.random.rand(N), 'y': np.random.rand(N)})
  df_perf['sum_apply'] = df_perf.apply(lambda row: row['x'] + row['y'], axis=1)
  df_perf['sum_vectorized'] = df_perf['x'] + df_perf['y']
  print("Results equal?", df_perf['sum_apply'].equals(df_perf['sum_vectorized']))

  sums = []
  for idx, row in df_perf.iterrows():
      sums.append(row['x'] + row['y'])
  df_perf['sum_loop'] = sums
  print("Results equal?", df_perf['sum_loop'].equals(df_perf['sum_vectorized']))
  \<close>
  The DataFrame is the list of its rows; a column is read off the rows. The three
  functions return the new column that the notebook stores in the frame.
\<close>

record row =
  row_x :: float64
  row_y :: float64

type_synonym dataframe = "row list"

definition column_x :: "dataframe \<Rightarrow> float64 list" where
  "column_x df = map row_x df"

definition column_y :: "dataframe \<Rightarrow> float64 list" where
  "column_y df = map row_y df"

definition sum_apply :: "dataframe \<Rightarrow> float64 list" where
  "sum_apply df = map (\<lambda>r. fadd (row_x r) (row_y r)) df"

definition sum_vectorized :: "dataframe \<Rightarrow> float64 list" where
  "sum_vectorized df = map (\<lambda>(a, b). fadd a b) (zip (column_x df) (column_y df))"

fun iterrows_loop :: "float64 list \<Rightarrow> dataframe \<Rightarrow> float64 list" where
  "iterrows_loop acc [] = acc"
| "iterrows_loop acc (r # rest) = iterrows_loop (acc @ [fadd (row_x r) (row_y r)]) rest"

definition sum_loop :: "dataframe \<Rightarrow> float64 list" where
  "sum_loop df = iterrows_loop [] df"

text \<open>The two checks the notebook prints after \<open>Results equal?\<close>.\<close>

definition results_equal_apply :: "dataframe \<Rightarrow> bool" where
  "results_equal_apply df = series_equals (sum_apply df) (sum_vectorized df)"

definition results_equal_loop :: "dataframe \<Rightarrow> bool" where
  "results_equal_loop df = series_equals (sum_loop df) (sum_vectorized df)"

text \<open>The frame whose columns are \<open>[1, 2, 3, 4]\<close> and \<open>[10, 20, 30, 40]\<close>.\<close>

definition frame4 :: dataframe where
  "frame4 =
     [\<lparr>row_x = Finite 1, row_y = Finite 10\<rparr>, \<lparr>row_x = Finite 2, row_y = Finite 20\<rparr>,
      \<lparr>row_x = Finite 3, row_y = Finite 30\<rparr>, \<lparr>row_x = Finite 4, row_y = Finite 40\<rparr>]"

subsection \<open>The tolerance check that the specification describes\<close>

text \<open>
  The specification's equivalence checker, in its words: two floating-point outputs are
  equivalent when every corresponding element differs by less than an absolute tolerance
  or a relative tolerance (defaults \<open>1e-9\<close> and \<open>1e-6\<close>), and NaN against NaN at the same
  position counts as equal. The relative tolerance is taken relative to the larger
  magnitude. No cell of the notebooks implements this check; it is written down here
  only to be compared with \<open>series_equals\<close>.
\<close>

fun spec_close :: "rat \<Rightarrow> rat \<Rightarrow> float64 \<Rightarrow> float64 \<Rightarrow> bool" where
  "spec_close atol rtol (Finite p) (Finite q) =
     (\<bar>p - q\<bar> < atol \<or> \<bar>p - q\<bar> < rtol * max \<bar>p\<bar> \<bar>q\<bar>)"
| "spec_close atol rtol a b = (a = b)"

definition spec_equivalent :: "rat \<Rightarrow> rat \<Rightarrow> float64 list \<Rightarrow> float64 list \<Rightarrow> bool" where
  "spec_equivalent atol rtol left right =
     (length left = length right \<and>
      list_all (\<lambda>(l, r). spec_close atol rtol l r) (zip left right))"

definition default_atol :: rat where
  "default_atol = 1 / 10 ^ 9"

definition default_rtol :: rat where
  "default_rtol = 1 / 10 ^ 6"

section \<open>Arrays behind references: \<open>masked_divide\<close> and the sum comparison\<close>

text \<open>
  A Python variable holds a reference to an array, and two variables may hold the same
  reference. The heap maps a reference to the content of its array.
\<close>

type_synonym ref = nat

type_synonym heap = "ref \<Rightarrow> float64 list"

text \<open>
  Boolean-mask indexing: \<open>A[mask]\<close> selects the elements at the true positions, and
  \<open>V[mask] = C\<close> stores the elements of \<open>C\<close>, in order, at the true positions.
\<close>

fun mask_select :: "'a list \<Rightarrow> bool list \<Rightarrow> 'a list" where
  "mask_select (a # as) (m # ms) = (if m then a # mask_select as ms else mask_select as ms)"
| "mask_select _ _ = []"

fun mask_assign :: "'a list \<Rightarrow> bool list \<Rightarrow> 'a list \<Rightarrow> 'a list" where
  "mask_assign (v # vs) (True # ms) (c # cs) = c # mask_assign vs ms cs"
| "mask_assign (v # vs) (m # ms) cs = v # mask_assign vs ms cs"
| "mask_assign vs _ _ = vs"

text \<open>
  \<^verbatim>\<open>
  def masked_divide(A, B):
      V_mask = A # Create a copy of A to avoid modifying it.
      mask = (B != 0)
      C=A[mask] / B[mask]
      V_mask[mask] = C
      return V_mask,A
  \<close>
  \<open>V_mask = A\<close> copies the reference, not the array. \<open>mask\<close> and \<open>C\<close> are new arrays that
  nothing else refers to, so they are plain values. A mask whose length differs from the
  indexed array raises \<open>IndexError\<close>.
\<close>

definition masked_divide :: "heap \<Rightarrow> ref \<Rightarrow> ref \<Rightarrow> error + ((ref \<times> ref) \<times> heap)" where
  "masked_divide h A B =
     (let V_mask = A;
          mask = map (\<lambda>b. ieee_ne b (Finite 0)) (h B)
      in if length mask \<noteq> length (h A) then Inl IndexError
         else
           let C = map (\<lambda>(a, b). fdiv a b) (zip (mask_select (h A) mask) (mask_select (h B) mask))
           in Inr ((V_mask, A), h(V_mask := mask_assign (h V_mask) mask C)))"

text \<open>
  \<^verbatim>\<open>
  def python_loop_sum(data):
      total = 0.0
      for x in data:
          total += x
      return total

  def numpy_vectorized_sum(data):
      return np.sum(data)
  \<close>
  A candidate takes the heap and returns its result with the heap it leaves behind.

  \<open>np.sum\<close> of a one-dimensional \<open>float64\<close> array is NumPy's pairwise summation, and its
  order of additions is not the loop's. Fewer than 8 elements are added from left to
  right, starting from zero. Up to 128 elements are added in eight lanes: lane \<open>j\<close> starts
  with element \<open>j\<close> and takes every eighth element after it while a full group of eight
  remains; the lanes are then combined as
  \<open>((r0 + r1) + (r2 + r3)) + ((r4 + r5) + (r6 + r7))\<close>, and the elements left over are
  added to that, one by one. A longer array is split at half its length, rounded down to
  a multiple of eight, and the sums of the two parts are added.
\<close>

type_synonym 'r candidate = "heap \<Rightarrow> 'r \<times> heap"

fun sum_loop_from :: "float64 \<Rightarrow> float64 list \<Rightarrow> float64" where
  "sum_loop_from tot [] = tot"
| "sum_loop_from tot (x # xs) = sum_loop_from (fadd tot x) xs"

definition python_loop_sum :: "ref \<Rightarrow> float64 candidate" where
  "python_loop_sum data h = (sum_loop_from (Finite 0) (h data), h)"

function add_lanes :: "float64 list \<Rightarrow> float64 list \<Rightarrow> float64 list \<times> float64 list" where
  "add_lanes r a =
     (if length a < 8 then (r, a)
      else add_lanes (map (\<lambda>(x, y). fadd x y) (zip r (take 8 a))) (drop 8 a))"
  by pat_completeness auto
termination
  by (relation "measure (\<lambda>(r, a). length a)") auto

declare add_lanes.simps [simp del]

function pairwise_sum :: "float64 list \<Rightarrow> float64" where
  "pairwise_sum a =
     (if length a < 8 then foldl fadd (Finite 0) a
      else if length a \<le> 128 then
        (case add_lanes (take 8 a) (drop 8 a) of
           (r, rest) \<Rightarrow>
             foldl fadd
               (fadd (fadd (fadd (r ! 0) (r ! 1)) (fadd (r ! 2) (r ! 3)))
                     (fadd (fadd (r ! 4) (r ! 5)) (fadd (r ! 6) (r ! 7))))
               rest)
      else
        fadd (pairwise_sum (take (length a div 2 - length a div 2 mod 8) a))
             (pairwise_sum (drop (length a div 2 - length a div 2 mod 8) a)))"
  by pat_completeness auto
termination
  by (relation "measure length") auto

declare pairwise_sum.simps [simp del]

definition np_sum :: "float64 list \<Rightarrow> float64" where
  "np_sum a = pairwise_sum a"

definition numpy_vectorized_sum :: "ref \<Rightarrow> float64 candidate" where
  "numpy_vectorized_sum data h = (np_sum (h data), h)"

text \<open>
  \<open>%timeit\<close> executes the statement \<open>number\<close> times in each of \<open>repeat\<close> runs. The
  measured durations are an input; the statement's effect on the heap is that of all its
  executions, one after the other.
\<close>

fun call_times :: "nat \<Rightarrow> 'r candidate \<Rightarrow> heap \<Rightarrow> heap" where
  "call_times 0 c h = h"
| "call_times (Suc k) c h = call_times k c (snd (c h))"

definition timeit :: "nat \<Rightarrow> nat \<Rightarrow> 'r candidate \<Rightarrow> rat list \<Rightarrow> heap \<Rightarrow> rat list \<times> heap" where
  "timeit repeat number c durations h =
     (map (\<lambda>d. d / of_nat number) durations, call_times (repeat * number) c h)"

text \<open>
  The cell that compares two candidates:
  \<^verbatim>\<open>
  total_loop = python_loop_sum(data)
  total_numpy = numpy_vectorized_sum(data)
  print("Difference:", abs(total_loop - total_numpy))
  %timeit python_loop_sum(data)
  %timeit numpy_vectorized_sum(data)
  \<close>
  Its equivalence outcome is the printed difference; the timings are the rest of its
  output.
\<close>

record timing =
  repeat_count :: nat
  loop_count :: nat
  measured :: "rat list"

record report =
  difference :: float64
  loop_timing :: "rat list"
  numpy_timing :: "rat list"

definition comparison_cell ::
  "float64 candidate \<Rightarrow> float64 candidate \<Rightarrow> timing \<Rightarrow> timing \<Rightarrow> heap \<Rightarrow> report \<times> heap" where
  "comparison_cell c1 c2 t1 t2 h =
     (let (total_loop, h1) = c1 h;
          (total_numpy, h2) = c2 h1;
          d = fabs (fsub total_loop total_numpy);
          (r1, h3) = timeit (repeat_count t1) (loop_count t1) c1 (measured t1) h2;
          (r2, h4) = timeit (repeat_count t2) (loop_count t2) c2 (measured t2) h3
      in (\<lparr>difference = d, loop_timing = r1, numpy_timing = r2\<rparr>, h4))"

definition non_mutating :: "'r candidate \<Rightarrow> bool" where
  "non_mutating c = (\<forall>h. snd (c h) = h)"

section \<open>The naive sum of primes of the profiling notebook\<close>

text \<open>
  \<^verbatim>\<open>
  def sum_primes_naive(n):
      """Compute the sum of all prime numbers below n using a naive approach."""
      def is_prime(x):
          if x < 2:
              return False
          # Check divisibility from 2 up to sqrt(x)
          for i in range(2, int(x**0.5) + 1):
              if x % i == 0:
                  return False
          return True

      total = 0
      for num in range(2, n):
          if is_prime(num):
              total += num
      return total
  \<close>
  \<open>int(x**0.5)\<close> is the integer part of the square root. The model computes it exactly,
  by a downward search for the largest \<open>r\<close> with \<open>r * r \<le> x\<close>; the rounding of the
  floating-point square root on integers beyond the 53-bit mantissa is not modelled.
  \<open>range(2, k + 1)\<close> is the list \<open>[2..k]\<close>, and \<open>%\<close> with a positive divisor is \<open>mod\<close>.
\<close>

fun sqrt_search :: "nat \<Rightarrow> nat \<Rightarrow> nat" where
  "sqrt_search x 0 = 0"
| "sqrt_search x (Suc r) = (if Suc r * Suc r \<le> x then Suc r else sqrt_search x r)"

definition int_sqrt :: "int \<Rightarrow> int" where
  "int_sqrt x = int (sqrt_search (nat x) (nat x))"

fun trial_division :: "int \<Rightarrow> int list \<Rightarrow> bool" where
  "trial_division x [] = True"
| "trial_division x (i # rest) = (if x mod i = 0 then False else trial_division x rest)"

definition is_prime :: "int \<Rightarrow> bool" where
  "is_prime x = (if x < 2 then False else trial_division x [2..int_sqrt x])"

fun accumulate_primes :: "int \<Rightarrow> int list \<Rightarrow> int" where
  "accumulate_primes tot [] = tot"
| "accumulate_primes tot (num # rest) =
     accumulate_primes (if is_prime num then tot + num else tot) rest"

definition sum_primes_naive :: "int \<Rightarrow> int" where
  "sum_primes_naive n = accumulate_primes 0 [2..n - 1]"

text \<open>
  A prime number, as the claim about this function uses the word: an integer greater than
  one whose only positive divisors are one and itself.
\<close>

definition prime_number :: "int \<Rightarrow> bool" where
  "prime_number p \<longleftrightarrow> 1 < p \<and> (\<forall>d. 0 < d \<and> d dvd p \<longrightarrow> d = 1 \<or> d = p)"

section \<open>The recursive Fibonacci function of the debugging notebook\<close>

text \<open>
  \<^verbatim>\<open>
  def fib(n):
      if n < 0:
          raise ValueError('Negative arguments not allowed')
      if n in (0, 1):
          return n
      return fib(n - 1) + fib(n - 2)
  \<close>
  Python integers are unbounded, so \<open>n\<close> is an \<open>int\<close>. The recursion is not structural;
  it terminates because the argument of a recursive call is a smaller non-negative
  number. The interpreter's recursion limit is a resource bound and is not part of the
  model.
\<close>

function fib :: "int \<Rightarrow> error + int" where
  "fib n =
     (if n < 0 then Inl ValueError
      else if n = 0 \<or> n = 1 then Inr n
      else (case fib (n - 1) of
              Inl e \<Rightarrow> Inl e
            | Inr a \<Rightarrow> (case fib (n - 2) of
                          Inl e \<Rightarrow> Inl e
                        | Inr b \<Rightarrow> Inr (a + b))))"
  by pat_completeness auto
termination
  by (relation "measure nat") auto

declare fib.simps [simp del]

text \<open>
  The Fibonacci numbers as the notebook's comment describes them: the sequence starts
  with 0 and 1, and each number is the sum of the two preceding ones.
\<close>

fun fibonacci :: "nat \<Rightarrow> int" where
  "fibonacci 0 = 0"
| "fibonacci (Suc 0) = 1"
| "fibonacci (Suc (Suc k)) = fibonacci (Suc k) + fibonacci k"

section \<open>Evaluating the rounding on numerals\<close>

lemma bit_length_0 [simp]: "bit_length 0 = 0"
  by (simp add: bit_length.simps)

lemma bit_length_1 [simp]: "bit_length 1 = 1"
  by (simp add: bit_length.simps)

lemma bit_length_Bit0 [simp]: "bit_length (numeral (Num.Bit0 k)) = 1 + bit_length (numeral k)"
  by (subst bit_length.simps) simp

lemma bit_length_Bit1 [simp]: "bit_length (numeral (Num.Bit1 k)) = 1 + bit_length (numeral k)"
  by (subst bit_length.simps) simp

lemma floor_rat_fraction [simp]:
  "\<lfloor>(numeral a :: rat) / numeral b\<rfloor> = numeral a div numeral b"
  using floor_divide_of_int_eq [of "numeral a" "numeral b", where ?'a = rat] by simp

lemma floor_rat_unit_fraction [simp]: "\<lfloor>(1 :: rat) / numeral b\<rfloor> = 1 div numeral b"
  using floor_divide_of_int_eq [of 1 "numeral b", where ?'a = rat] by simp

lemmas round64_eval = round64_def binary_exponent_def round_half_even_def pow2_def Let_def

lemma round64_small [simp]:
  "round64 0 = Finite 0" "round64 1 = Finite 1" "round64 2 = Finite 2"
  "round64 3 = Finite 3" "round64 4 = Finite 4" "round64 5 = Finite 5"
  "round64 6 = Finite 6" "round64 10 = Finite 10"
  "round64 (1 / 2) = Finite (1 / 2)" "round64 (1 / 4) = Finite (1 / 4)"
  by (simp_all add: round64_eval)

section \<open>Timing: the best time per loop\<close>

lemma foldl_min_Min:
  "foldl (\<lambda>m u. if u < m then u else m) t ts = Min (set (t # ts))" for t :: rat
proof (induction ts arbitrary: t)
  case Nil
  show ?case by simp
next
  case (Cons u us)
  have "(if u < t then u else t) = min t u" by (auto simp: min_def)
  then have "foldl (\<lambda>m u. if u < m then u else m) t (u # us) = Min (set (min t u # us))"
    using Cons.IH [of "min t u"] by simp
  also have "\<dots> = Min (set (t # u # us))"
  proof (cases "us = []")
    case True
    then show ?thesis by (simp add: min_def)
  next
    case False
    then show ?thesis by (simp add: min.assoc)
  qed
  finally show ?case .
qed

lemma py_min_Min: "ts \<noteq> [] \<Longrightarrow> py_min ts = Inr (Min (set ts))"
  by (cases ts) (simp_all only: py_min.simps foldl_min_Min, simp)

text \<open>
  Claim C1, as the code has it. For \<open>R \<ge> 1\<close> recorded run durations, none negative, and
  an inner-loop count \<open>N \<ge> 1\<close>, the cell computes a value and raises nothing; the value
  is the smallest run duration divided by \<open>N\<close> and multiplied by \<open>10\<^sup>6\<close>, that is the
  best time per call in microseconds, and it is not negative.
\<close>

theorem best_per_loop_microseconds:
  assumes "length ts = R" and "1 \<le> R" and "1 \<le> N" and "\<forall>t \<in> set ts. 0 \<le> t"
  shows "best ts N = Inr (Min (set ts) / of_int N * 1000000) \<and>
         0 \<le> Min (set ts) / of_int N * 1000000"
proof -
  from assms have ne: "ts \<noteq> []" by auto
  then have "Min (set ts) \<in> set ts" by (simp add: Min_in)
  with assms have "0 \<le> Min (set ts)" by blast
  moreover from assms have "0 < (of_int N :: rat)" by simp
  ultimately have "0 \<le> Min (set ts) / of_int N * 1000000" by simp
  moreover from ne assms have "best ts N = Inr (Min (set ts) / of_int N * 1000000)"
    by (simp add: best_def py_min_Min)
  ultimately show ?thesis by simp
qed

theorem best_per_loop_microseconds_witness:
  "length [4, 2 :: rat] = 2 \<and> (1::nat) \<le> 2 \<and> (1::int) \<le> 2 \<and> (0::rat) \<le> 4 \<and> (0::rat) \<le> 2 \<and>
   best [4, 2] 2 = Inr 1000000"
  using best_per_loop_microseconds [of "[4, 2]" 2 2] by simp

text \<open>
  The reported value is not \<open>min(times) / runs\<close> itself: for the durations \<open>[4, 2]\<close> and
  two loops per run the cell reports \<open>1000000\<close>, not \<open>1\<close>.
\<close>

theorem best_not_seconds_counterexample:
  "best [4, 2] 2 \<noteq> Inr (Min (set [4, 2]) / of_int 2)"
  by (simp add: best_def)

section \<open>Masked ufuncs\<close>

text \<open>
  Claim C2, as the code has it. \<open>np.power(2, A, out=V, where=condition)\<close> on
  \<open>A = [2, 0, 5, 0, 10]\<close> leaves the pre-set value of \<open>V\<close> at exactly the two positions
  where \<open>A\<close> is zero, whatever that value is, and stores \<open>2 ** A[i]\<close> at the other three:
  with \<open>V\<close> filled with NaN the result is \<open>[4, NaN, 32, NaN, 1024]\<close>.
\<close>

theorem power_where_keeps_sentinel:
  "np_power_out_where 2 [2, 0, 5, 0, 10] (np_full 5 s) (nonzero_mask [2, 0, 5, 0, 10]) =
     Inr [Finite 4, s, Finite 32, s, Finite 1024] \<and>
   correct_approach = Inr [Finite 4, NaN, Finite 32, NaN, Finite 1024]"
  by (simp add: correct_approach_def np_power_out_where_def ufunc_out_where_def broadcast_to_def
      np_full_def nonzero_mask_def int_power_def int64_wrap_def numeral_eq_Suc round64_eval)

text \<open>
  Neither cell yields \<open>[10/2, NaN, 10/5, NaN, 10/10]\<close>. The \<open>out=\<close> form computes powers
  of two, not quotients. The form without \<open>out=\<close> returns a new buffer, and where the mask
  is false the buffer keeps what it held: with the content that the notebook's recorded
  output shows, \<open>[5, 1.41421356, 2, 2, 1]\<close>, neither masked position is NaN.
\<close>

theorem masked_forms_counterexample:
  "correct_approach \<noteq> Inr [Finite (10 / 2), NaN, Finite (10 / 5), NaN, Finite (10 / 10)] \<and>
   incorrect_approach [Finite 5, Finite (141421356 / 100000000), Finite 2, Finite 2, Finite 1]
     \<noteq> Inr [Finite (10 / 2), NaN, Finite (10 / 5), NaN, Finite (10 / 10)]"
  by (simp add: correct_approach_def np_power_out_where_def incorrect_approach_def
      np_divide_where_def int_true_divide_def ufunc_out_where_def broadcast_to_def
      np_full_def nonzero_mask_def int_power_def int64_wrap_def numeral_eq_Suc round64_eval)

section \<open>masked_divide\<close>

text \<open>
  Claim C3 fails on the code. With \<open>A = [1, 3]\<close> at reference 0 and \<open>B = [2, 0]\<close> at
  reference 1, \<open>masked_divide(A, B)\<close> returns the reference of \<open>A\<close> twice and leaves
  \<open>[0.5, 3]\<close> in \<open>A\<close>; a second call on the same variables therefore reads the
  overwritten array and leaves \<open>[0.25, 3]\<close>.
\<close>

theorem masked_divide_overwrites_input:
  "masked_divide ((\<lambda>_. [])(0 := [Finite 1, Finite 3], 1 := [Finite 2, Finite 0])) 0 1 =
     Inr ((0, 0), (\<lambda>_. [])(0 := [Finite (1 / 2), Finite 3], 1 := [Finite 2, Finite 0])) \<and>
   masked_divide ((\<lambda>_. [])(0 := [Finite (1 / 2), Finite 3], 1 := [Finite 2, Finite 0])) 0 1 =
     Inr ((0, 0), (\<lambda>_. [])(0 := [Finite (1 / 4), Finite 3], 1 := [Finite 2, Finite 0]))"
  by (auto simp add: masked_divide_def ieee_ne_def Let_def fun_upd_def)

section \<open>Series.equals\<close>

lemma elem_match_iff: "ieee_eq a b \<or> (isnan a \<and> isnan b) \<longleftrightarrow> a = b"
  by (cases a; cases b) simp_all

lemma series_equals_nth:
  "series_equals xs ys \<longleftrightarrow>
     length xs = length ys \<and> (\<forall>i < length xs. xs ! i = ys ! i)"
  by (auto simp: series_equals_def list_all_length elem_match_iff)

lemma series_equals_eq: "series_equals xs ys \<longleftrightarrow> xs = ys"
  by (auto simp: series_equals_nth list_eq_iff_nth_eq)

lemma nan_or_ieee_eq: "(a = NaN \<and> b = NaN) \<or> ieee_eq a b \<longleftrightarrow> a = b"
  by (cases a; cases b) simp_all

text \<open>
  Claim C4. For two columns of the same length, \<open>equals\<close> holds exactly when every
  position either pairs NaN with NaN or pairs two elements equal under \<open>==\<close>: a NaN
  paired with a NaN never makes the check fail. A position that pairs a NaN with a value
  that is not NaN always makes it fail.
\<close>

theorem series_equals_nan_policy:
  assumes "length xs = length ys"
  shows "(series_equals xs ys \<longleftrightarrow>
            (\<forall>i < length xs. (xs ! i = NaN \<and> ys ! i = NaN) \<or> ieee_eq (xs ! i) (ys ! i))) \<and>
         ((\<exists>i < length xs. (xs ! i = NaN) \<noteq> (ys ! i = NaN)) \<longrightarrow> \<not> series_equals xs ys)"
proof -
  have "series_equals xs ys \<longleftrightarrow> (\<forall>i < length xs. xs ! i = ys ! i)"
    using assms by (simp add: series_equals_nth)
  then show ?thesis by (auto simp: nan_or_ieee_eq)
qed

theorem series_equals_nan_policy_witness:
  "length [Finite 1, NaN] = length [Finite 1, NaN] \<and>
   series_equals [Finite 1, NaN] [Finite 1, NaN] \<and>
   (\<exists>i < length [Finite 1, NaN]. ([Finite 1, NaN] ! i = NaN) \<noteq> ([Finite 1, Finite 2] ! i = NaN)) \<and>
   \<not> series_equals [Finite 1, NaN] [Finite 1, Finite 2]"
proof -
  have l: "length [Finite 1, NaN] = length [Finite 1, NaN]" by simp
  have l2: "length [Finite 1, NaN] = length [Finite 1, Finite 2]" by simp
  have all: "\<forall>i < length [Finite 1, NaN].
      ([Finite 1, NaN] ! i = NaN \<and> [Finite 1, NaN] ! i = NaN) \<or>
      ieee_eq ([Finite 1, NaN] ! i) ([Finite 1, NaN] ! i)"
    by (simp add: less_Suc_eq all_conj_distrib)
  have ex: "\<exists>i < length [Finite 1, NaN].
      ([Finite 1, NaN] ! i = NaN) \<noteq> ([Finite 1, Finite 2] ! i = NaN)"
    by (rule exI [of _ 1]) simp
  from series_equals_nan_policy [OF l] all
  have a: "series_equals [Finite 1, NaN] [Finite 1, NaN]" by blast
  from series_equals_nan_policy [OF l2] ex
  have b: "\<not> series_equals [Finite 1, NaN] [Finite 1, Finite 2]" by blast
  from l a ex b show ?thesis by blast
qed

section \<open>Row-wise and vectorized sums\<close>

lemma iterrows_loop_map:
  "iterrows_loop acc df = acc @ map (\<lambda>r. fadd (row_x r) (row_y r)) df"
  by (induction df arbitrary: acc) simp_all

lemma sum_loop_apply: "sum_loop df = sum_apply df"
  by (simp add: sum_loop_def sum_apply_def iterrows_loop_map)

lemma sum_apply_vectorized: "sum_apply df = sum_vectorized df"
  by (induction df) (simp_all add: sum_apply_def sum_vectorized_def column_x_def column_y_def)

text \<open>
  Claim C5, as the code has it. For every frame, the \<open>iterrows\<close> loop, the row-wise
  \<open>apply\<close> and the vectorized column addition produce the same column, and both \<open>equals\<close>
  checks of the notebook hold. For the columns \<open>[1, 2, 3, 4]\<close> and \<open>[10, 20, 30, 40]\<close>
  the loop and the vectorized addition both produce \<open>[11, 22, 33, 44]\<close>. The two scalar
  sums, \<open>python_loop_sum\<close> and \<open>numpy_vectorized_sum\<close>, agree on each of these two
  sequences: both return \<open>10\<close> on the first and \<open>100\<close> on the second.
\<close>

theorem loop_and_vectorized_sums_agree:
  "sum_loop df = sum_vectorized df \<and> sum_apply df = sum_vectorized df \<and>
   results_equal_loop df \<and> results_equal_apply df \<and>
   sum_vectorized frame4 = [Finite 11, Finite 22, Finite 33, Finite 44] \<and>
   sum_loop frame4 = [Finite 11, Finite 22, Finite 33, Finite 44] \<and>
   fst (python_loop_sum 0 ((\<lambda>_. [])(0 := [Finite 1, Finite 2, Finite 3, Finite 4]))) = Finite 10 \<and>
   fst (numpy_vectorized_sum 0 ((\<lambda>_. [])(0 := [Finite 1, Finite 2, Finite 3, Finite 4]))) = Finite 10 \<and>
   fst (python_loop_sum 0 ((\<lambda>_. [])(0 := [Finite 10, Finite 20, Finite 30, Finite 40]))) = Finite 100 \<and>
   fst (numpy_vectorized_sum 0 ((\<lambda>_. [])(0 := [Finite 10, Finite 20, Finite 30, Finite 40]))) = Finite 100"
proof -
  have v: "sum_vectorized frame4 = [Finite 11, Finite 22, Finite 33, Finite 44]"
    by (simp add: sum_vectorized_def frame4_def column_x_def column_y_def round64_eval)
  have l: "sum_loop df = sum_vectorized df" for df
    by (simp add: sum_loop_apply sum_apply_vectorized)
  have p1: "sum_loop_from (Finite 0) [Finite 1, Finite 2, Finite 3, Finite 4] = Finite 10"
    by (simp add: round64_eval)
  have p2: "sum_loop_from (Finite 0) [Finite 10, Finite 20, Finite 30, Finite 40] = Finite 100"
    by (simp add: round64_eval)
  have n1: "np_sum [Finite 1, Finite 2, Finite 3, Finite 4] = Finite 10"
    unfolding np_sum_def by (subst pairwise_sum.simps) (simp add: round64_eval)
  have n2: "np_sum [Finite 10, Finite 20, Finite 30, Finite 40] = Finite 100"
    unfolding np_sum_def by (subst pairwise_sum.simps) (simp add: round64_eval)
  show ?thesis
    using v l [of frame4] p1 p2 n1 n2
    by (simp add: l sum_apply_vectorized results_equal_loop_def results_equal_apply_def
        series_equals_eq python_loop_sum_def numpy_vectorized_sum_def)
qed

text \<open>
  The two scalar sums are not equal on every array. On
  \<open>[2\<^sup>5\<^sup>3, 0, 0, 0, 1, 1, 0, 0]\<close> the loop adds each \<open>1\<close> to \<open>2\<^sup>5\<^sup>3\<close>, where it is rounded
  away, and returns \<open>2\<^sup>5\<^sup>3\<close>; the pairwise summation adds the two ones to each other
  first and returns \<open>2\<^sup>5\<^sup>3 + 2\<close>.
\<close>

theorem scalar_sums_differ_counterexample:
  "fst (python_loop_sum 0
         ((\<lambda>_. [])(0 := [Finite 9007199254740992, Finite 0, Finite 0, Finite 0,
                           Finite 1, Finite 1, Finite 0, Finite 0])))
     = Finite 9007199254740992 \<and>
   fst (numpy_vectorized_sum 0
         ((\<lambda>_. [])(0 := [Finite 9007199254740992, Finite 0, Finite 0, Finite 0,
                           Finite 1, Finite 1, Finite 0, Finite 0])))
     = Finite 9007199254740994 \<and>
   fst (python_loop_sum 0
         ((\<lambda>_. [])(0 := [Finite 9007199254740992, Finite 0, Finite 0, Finite 0,
                           Finite 1, Finite 1, Finite 0, Finite 0])))
     \<noteq> fst (numpy_vectorized_sum 0
         ((\<lambda>_. [])(0 := [Finite 9007199254740992, Finite 0, Finite 0, Finite 0,
                           Finite 1, Finite 1, Finite 0, Finite 0])))"
proof -
  have big: "round64 9007199254740992 = Finite 9007199254740992"
    by (simp add: round64_eval)
  have lost: "round64 9007199254740993 = Finite 9007199254740992"
    by (simp add: round64_eval)
  have kept: "round64 9007199254740994 = Finite 9007199254740994"
    by (simp add: round64_eval)
  have lanes: "add_lanes r [] = (r, [])" for r
    by (subst add_lanes.simps) simp
  have p: "sum_loop_from (Finite 0)
             [Finite 9007199254740992, Finite 0, Finite 0, Finite 0,
              Finite 1, Finite 1, Finite 0, Finite 0] = Finite 9007199254740992"
    by (simp add: big lost)
  have n: "np_sum [Finite 9007199254740992, Finite 0, Finite 0, Finite 0,
                   Finite 1, Finite 1, Finite 0, Finite 0] = Finite 9007199254740994"
    unfolding np_sum_def by (subst pairwise_sum.simps) (simp add: lanes big kept)
  show ?thesis
    unfolding python_loop_sum_def numpy_vectorized_sum_def fst_conv fun_upd_same p n
    by simp
qed

section \<open>Exact equality against the tolerance check\<close>

lemma spec_close_refl: "0 < atol \<Longrightarrow> spec_close atol rtol a a"
  by (cases a) simp_all

lemma spec_equivalent_refl: "0 < atol \<Longrightarrow> spec_equivalent atol rtol xs xs"
  by (induction xs) (simp_all add: spec_equivalent_def spec_close_refl)

text \<open>
  Claim C6, as the code has it. The check that the notebooks use, \<open>equals\<close>, passes
  exactly when the two columns are the same sequence of values (NaN matching NaN): it
  applies no tolerance. Two columns that pass it are also equivalent under the
  specification's tolerance check, for every positive absolute tolerance.
\<close>

theorem equals_is_exact:
  "(series_equals xs ys \<longleftrightarrow> xs = ys) \<and>
   (0 < atol \<and> series_equals xs ys \<longrightarrow> spec_equivalent atol rtol xs ys)"
  by (auto simp: series_equals_eq spec_equivalent_refl)

theorem equals_is_exact_witness:
  "0 < default_atol \<and> series_equals [Finite 1, NaN] [Finite 1, NaN] \<and>
   spec_equivalent default_atol default_rtol [Finite 1, NaN] [Finite 1, NaN]"
proof -
  have p: "0 < default_atol" by (simp add: default_atol_def)
  from equals_is_exact [of "[Finite 1, NaN]" "[Finite 1, NaN]"]
  have s: "series_equals [Finite 1, NaN] [Finite 1, NaN]" by simp
  from equals_is_exact [of "[Finite 1, NaN]" "[Finite 1, NaN]" default_atol default_rtol] p s
  have "spec_equivalent default_atol default_rtol [Finite 1, NaN] [Finite 1, NaN]" by blast
  with p s show ?thesis by simp
qed

text \<open>
  The converse fails: \<open>1\<close> and \<open>1 + 10\<^sup>-\<^sup>1\<^sup>0\<close> are within the default tolerances, and
  \<open>equals\<close> rejects them.
\<close>

theorem tolerance_counterexample:
  "spec_equivalent default_atol default_rtol [Finite 1] [Finite (1 + 1 / 10 ^ 10)] \<and>
   \<not> series_equals [Finite 1] [Finite (1 + 1 / 10 ^ 10)]"
  by (simp add: spec_equivalent_def series_equals_def default_atol_def default_rtol_def)

section \<open>Determinism of the comparison\<close>

lemma call_times_non_mutating: "non_mutating c \<Longrightarrow> call_times k c h = h"
  by (induction k arbitrary: h) (simp_all add: non_mutating_def)

lemma comparison_cell_non_mutating:
  assumes "non_mutating c1" and "non_mutating c2"
  shows "snd (comparison_cell c1 c2 t1 t2 h) = h"
    and "difference (fst (comparison_cell c1 c2 t1 t2 h)) = fabs (fsub (fst (c1 h)) (fst (c2 h)))"
proof -
  from assms have s: "snd (c1 h) = h" "snd (c2 h) = h" by (simp_all add: non_mutating_def)
  obtain a h1 where c1: "c1 h = (a, h1)" by (cases "c1 h")
  obtain b h2 where c2: "c2 h = (b, h2)" by (cases "c2 h")
  from s c1 c2 have h: "h1 = h" "h2 = h" by simp_all
  show "snd (comparison_cell c1 c2 t1 t2 h) = h"
    using assms c1 c2 h
    by (simp add: comparison_cell_def timeit_def call_times_non_mutating)
  show "difference (fst (comparison_cell c1 c2 t1 t2 h)) = fabs (fsub (fst (c1 h)) (fst (c2 h)))"
    using assms c1 c2 h
    by (simp add: comparison_cell_def timeit_def call_times_non_mutating)
qed

text \<open>
  Claim C8. When neither candidate changes the heap, running the comparison cell a second
  time, on the heap the first run left and with other timing measurements, prints the
  same difference as the first run.
\<close>

theorem comparison_deterministic:
  assumes "non_mutating c1" and "non_mutating c2"
  shows "difference (fst (comparison_cell c1 c2 t1' t2' (snd (comparison_cell c1 c2 t1 t2 h)))) =
         difference (fst (comparison_cell c1 c2 t1 t2 h))"
  using assms by (simp add: comparison_cell_non_mutating)

theorem comparison_deterministic_witness:
  "non_mutating (python_loop_sum 0) \<and>
   non_mutating (numpy_vectorized_sum 0) \<and>
   difference (fst (comparison_cell (python_loop_sum 0)
        (numpy_vectorized_sum 0)
        \<lparr>repeat_count = 7, loop_count = 1, measured = [9, 8, 7, 9, 9, 8, 9]\<rparr>
        \<lparr>repeat_count = 2, loop_count = 3, measured = [5, 6]\<rparr>
        (snd (comparison_cell (python_loop_sum 0)
           (numpy_vectorized_sum 0)
           \<lparr>repeat_count = 7, loop_count = 10, measured = [3, 2, 4, 2, 3, 3, 5]\<rparr>
           \<lparr>repeat_count = 7, loop_count = 1000, measured = [1, 1, 2, 1, 1, 1, 1]\<rparr>
           ((\<lambda>_. [])(0 := [Finite 1, Finite 2, Finite 3]))))))
   = difference (fst (comparison_cell (python_loop_sum 0)
        (numpy_vectorized_sum 0)
        \<lparr>repeat_count = 7, loop_count = 10, measured = [3, 2, 4, 2, 3, 3, 5]\<rparr>
        \<lparr>repeat_count = 7, loop_count = 1000, measured = [1, 1, 2, 1, 1, 1, 1]\<rparr>
        ((\<lambda>_. [])(0 := [Finite 1, Finite 2, Finite 3]))))"
proof -
  have n1: "non_mutating (python_loop_sum 0)"
    by (simp add: non_mutating_def python_loop_sum_def)
  have n2: "non_mutating (numpy_vectorized_sum 0)"
    by (simp add: non_mutating_def numpy_vectorized_sum_def)
  from n1 n2 comparison_deterministic [OF n1 n2] show ?thesis by blast
qed

section \<open>Trial division is a primality test\<close>

lemma sqrt_search_sound: "sqrt_search x r * sqrt_search x r \<le> x"
  by (induction r) auto

lemma sqrt_search_complete: "k \<le> r \<Longrightarrow> k * k \<le> x \<Longrightarrow> k \<le> sqrt_search x r"
proof (induction r)
  case 0
  then show ?case by simp
next
  case (Suc r)
  show ?case
  proof (cases "Suc r * Suc r \<le> x")
    case True
    with Suc.prems show ?thesis by simp
  next
    case False
    with Suc.prems have "k \<noteq> Suc r" by auto
    with Suc.prems have "k \<le> r" by simp
    with Suc False show ?thesis by simp
  qed
qed

lemma int_sqrt_sound: "0 \<le> x \<Longrightarrow> int_sqrt x * int_sqrt x \<le> x"
proof -
  assume x: "0 \<le> x"
  have "int (sqrt_search (nat x) (nat x) * sqrt_search (nat x) (nat x)) \<le> int (nat x)"
    using sqrt_search_sound [of "nat x" "nat x"] by (simp only: of_nat_le_iff)
  with x show ?thesis by (simp add: int_sqrt_def)
qed

lemma int_sqrt_complete:
  assumes "0 \<le> k" and "k * k \<le> x"
  shows "k \<le> int_sqrt x"
proof -
  from assms have x: "0 \<le> x" by (meson order_trans zero_le_square)
  have kk: "nat k * nat k \<le> nat x"
    using assms x by (metis nat_mono nat_mult_distrib)
  have "nat k \<le> nat k * nat k" by (rule le_square)
  then have "nat k \<le> nat x" using kk by (rule le_trans)
  then have "nat k \<le> sqrt_search (nat x) (nat x)"
    using kk by (rule sqrt_search_complete)
  with assms show ?thesis by (simp add: int_sqrt_def)
qed

lemma trial_division_iff: "trial_division x ds \<longleftrightarrow> (\<forall>i \<in> set ds. x mod i \<noteq> 0)"
  by (induction ds) auto

lemma is_prime_iff:
  "is_prime x \<longleftrightarrow> 2 \<le> x \<and> (\<forall>i. 2 \<le> i \<and> i \<le> int_sqrt x \<longrightarrow> \<not> i dvd x)"
  by (auto simp: is_prime_def trial_division_iff dvd_eq_mod_eq_0)

lemma small_factor:
  fixes x d :: int
  assumes x: "2 \<le> x" and d: "1 < d" "d < x" "d dvd x"
  shows "\<exists>i. 2 \<le> i \<and> i * i \<le> x \<and> i dvd x"
proof -
  from d obtain e where e: "x = d * e" by (auto simp: dvd_def)
  with x d have e1: "1 < e"
    by (smt (verit, best) mult_cancel_left2 mult_le_0_iff mult_less_cancel_left2 zero_less_mult_iff)
  show ?thesis
  proof (cases "d \<le> e")
    case True
    with d have "d * d \<le> d * e" by (simp add: mult_left_mono)
    with d e have "2 \<le> d \<and> d * d \<le> x \<and> d dvd x" by simp
    then show ?thesis by (rule exI)
  next
    case False
    with e1 have "e * e \<le> d * e" by (simp add: mult_right_mono)
    with e1 e have "2 \<le> e \<and> e * e \<le> x \<and> e dvd x" by simp
    then show ?thesis by (rule exI)
  qed
qed

lemma is_prime_prime_number: "is_prime x \<longleftrightarrow> prime_number x"
proof
  assume p: "is_prime x"
  then have x: "2 \<le> x" and nd: "\<And>i. 2 \<le> i \<Longrightarrow> i \<le> int_sqrt x \<Longrightarrow> \<not> i dvd x"
    by (auto simp: is_prime_iff)
  have "d = 1 \<or> d = x" if d: "0 < d" "d dvd x" for d
  proof (rule ccontr)
    assume "\<not> (d = 1 \<or> d = x)"
    moreover from d x have "d \<le> x" by (simp add: zdvd_imp_le)
    ultimately have "1 < d" "d < x" using d by auto
    with x d obtain i where i: "2 \<le> i" "i * i \<le> x" "i dvd x"
      using small_factor by blast
    then have "i \<le> int_sqrt x" by (simp add: int_sqrt_complete)
    with i nd show False by blast
  qed
  with x show "prime_number x" by (auto simp: prime_number_def)
next
  assume p: "prime_number x"
  then have x: "2 \<le> x" by (simp add: prime_number_def)
  have "\<not> i dvd x" if i: "2 \<le> i" "i \<le> int_sqrt x" for i
  proof
    assume dv: "i dvd x"
    from i have "0 < i" "i \<noteq> 1" by simp_all
    with p dv have "i = x" by (auto simp: prime_number_def)
    moreover from i have "i * i \<le> int_sqrt x * int_sqrt x" by (simp add: mult_mono)
    with x have "i * i \<le> x" using int_sqrt_sound [of x] by simp
    ultimately have "x * x \<le> x" by simp
    with x show False
      by (smt (verit) mult_le_cancel_left2 mult.commute mult_le_cancel_right2)
  qed
  with x show "is_prime x" by (auto simp: is_prime_iff)
qed

lemma accumulate_primes_sum:
  "accumulate_primes tot nums = tot + sum_list (filter is_prime nums)"
  by (induction nums arbitrary: tot) auto

lemma sum_primes_naive_set:
  "sum_primes_naive n = (\<Sum>p \<in> {p. 2 \<le> p \<and> p < n \<and> is_prime p}. p)"
proof -
  have "sum_list (filter is_prime [2..n - 1]) = sum (\<lambda>p. p) (set (filter is_prime [2..n - 1]))"
    using sum_list_distinct_conv_sum_set [of "filter is_prime [2..n - 1]" "\<lambda>p. p"] by simp
  moreover have "set (filter is_prime [2..n - 1]) = {p. 2 \<le> p \<and> p < n \<and> is_prime p}"
    by auto
  ultimately show ?thesis by (simp add: sum_primes_naive_def accumulate_primes_sum)
qed

text \<open>
  Claim C9. For every \<open>n\<close>, \<open>sum_primes_naive n\<close> is the sum of all prime numbers below
  \<open>n\<close>, and \<open>is_prime x\<close> holds exactly when \<open>x\<close> is a prime number.
\<close>

theorem sum_primes_naive_correct:
  "sum_primes_naive n = (\<Sum>p \<in> {p. p < n \<and> prime_number p}. p) \<and>
   (is_prime x \<longleftrightarrow> prime_number x)"
proof -
  have "{p. 2 \<le> p \<and> p < n \<and> is_prime p} = {p. p < n \<and> prime_number p}"
    by (auto simp: is_prime_prime_number prime_number_def)
  then show ?thesis by (simp add: sum_primes_naive_set is_prime_prime_number)
qed


theorem sum_primes_naive_correct_witness:
  "(\<Sum>p \<in> {p. p < 20 \<and> prime_number p}. p) = 77 \<and> prime_number 7 \<and> \<not> prime_number 9"
proof -
  have "sum_primes_naive 20 = 77" by code_simp
  moreover have "is_prime 7" by code_simp
  moreover have "\<not> is_prime 9" by code_simp
  ultimately show ?thesis
    using sum_primes_naive_correct [of 20 7] sum_primes_naive_correct [of 20 9] by simp
qed

section \<open>The recursive Fibonacci function is correct\<close>

lemma fib_nonneg_nat: "fib (int k) = Inr (fibonacci k)"
proof (induction k rule: fibonacci.induct)
  case 1
  show ?case by (simp add: fib.simps)
next
  case 2
  show ?case by (simp add: fib.simps)
next
  case (3 k)
  have a: "int (Suc (Suc k)) - 1 = int (Suc k)" by simp
  have b: "int (Suc (Suc k)) - 2 = int k" by simp
  have "fib (int (Suc (Suc k))) =
          (case fib (int (Suc k)) of
             Inl e \<Rightarrow> Inl e
           | Inr a \<Rightarrow> (case fib (int k) of Inl e \<Rightarrow> Inl e | Inr b \<Rightarrow> Inr (a + b)))"
    by (subst fib.simps) (simp only: a b, simp)
  with 3 show ?case by simp
qed

text \<open>
  Claim C10. \<open>fib n\<close> raises \<open>ValueError\<close> exactly when \<open>n\<close> is negative, and for every
  \<open>n \<ge> 0\<close> it returns the \<open>n\<close>-th Fibonacci number: the comment in the notebook that
  announces incorrect results for \<open>n > 1\<close> does not describe the code.
\<close>

theorem fib_correct:
  "(fib n = Inl ValueError \<longleftrightarrow> n < 0) \<and>
   (fib n = (if n < 0 then Inl ValueError else Inr (fibonacci (nat n))))"
proof (cases "n < 0")
  case True
  then show ?thesis by (simp add: fib.simps)
next
  case False
  then have "fib (int (nat n)) = Inr (fibonacci (nat n))"
    by (simp only: fib_nonneg_nat)
  with False show ?thesis by simp
qed

theorem fib_correct_witness:
  "fib 10 = Inr 55 \<and> fib (- 3) = Inl ValueError"
proof -
  have "fibonacci (nat 10) = 55" by code_simp
  then show ?thesis
    using fib_correct [of 10] fib_correct [of "- 3"] by simp
qed

end
